theory Spec2Isabelle
  imports Complex_Main "HOL-Library.Word"
begin

section \<open>Text and bytes\<close>

text \<open>
  A JavaScript string is a sequence of UTF-16 code units, here 16-bit words. A Buffer or
  Uint8Array is a list of 8-bit words. String literals of the source are written with
  \<open>lit\<close>.
\<close>

type_synonym unit16 = "16 word"
type_synonym ustring = "unit16 list"
type_synonym byte = "8 word"

definition lit :: "string \<Rightarrow> ustring" where
  "lit s = map of_char s"

definition byteOf :: "nat \<Rightarrow> byte" where
  "byteOf n = word_of_nat n"

definition unitOf :: "nat \<Rightarrow> unit16" where
  "unitOf n = word_of_nat n"

subsection \<open>Case mapping and trimming\<close>

text \<open>
  \<open>String.prototype.toLowerCase\<close> and \<open>toUpperCase\<close> on the letters A-Z and a-z. Code units
  outside ASCII are left as they are: the Unicode case tables are not part of this model.
\<close>

definition lowerUnit :: "unit16 \<Rightarrow> unit16" where
  "lowerUnit c = (if 0x41 \<le> c \<and> c \<le> 0x5A then c + 0x20 else c)"


definition toLowerCase :: "ustring \<Rightarrow> ustring" where
  "toLowerCase s = map lowerUnit s"


text \<open>The white space and line terminators that \<open>String.prototype.trim\<close> removes.\<close>

definition isWhiteSpace :: "unit16 \<Rightarrow> bool" where
  "isWhiteSpace c =
     (c = 0x09 \<or> c = 0x0A \<or> c = 0x0B \<or> c = 0x0C \<or> c = 0x0D \<or> c = 0x20 \<or> c = 0xA0
      \<or> c = 0x1680 \<or> (0x2000 \<le> c \<and> c \<le> 0x200A) \<or> c = 0x2028 \<or> c = 0x2029
      \<or> c = 0x202F \<or> c = 0x205F \<or> c = 0x3000 \<or> c = 0xFEFF)"

definition trim :: "ustring \<Rightarrow> ustring" where
  "trim s = rev (dropWhile isWhiteSpace (rev (dropWhile isWhiteSpace s)))"

text \<open>\<open>haystack.includes(needle)\<close>: the needle occurs as a contiguous run.\<close>

fun includesStr :: "ustring \<Rightarrow> ustring \<Rightarrow> bool" where
  "includesStr [] needle = (needle = [])"
| "includesStr (c # cs) needle =
     (take (length needle) (c # cs) = needle \<or> includesStr cs needle)"

subsection \<open>UTF-8\<close>

definition isHighSurrogate :: "unit16 \<Rightarrow> bool" where
  "isHighSurrogate u = (0xD800 \<le> u \<and> u \<le> 0xDBFF)"

definition isLowSurrogate :: "unit16 \<Rightarrow> bool" where
  "isLowSurrogate u = (0xDC00 \<le> u \<and> u \<le> 0xDFFF)"

text \<open>The UTF-8 bytes of one code point.\<close>

definition utf8Bytes :: "nat \<Rightarrow> byte list" where
  "utf8Bytes cp =
     (if cp < 0x80 then [byteOf cp]
      else if cp < 0x800 then [byteOf (0xC0 + cp div 64), byteOf (0x80 + cp mod 64)]
      else if cp < 0x10000 then
        [byteOf (0xE0 + cp div 4096), byteOf (0x80 + (cp div 64) mod 64),
         byteOf (0x80 + cp mod 64)]
      else
        [byteOf (0xF0 + cp div 262144), byteOf (0x80 + (cp div 4096) mod 64),
         byteOf (0x80 + (cp div 64) mod 64), byteOf (0x80 + cp mod 64)])"

text \<open>
  \<open>Buffer.from(text, "utf8")\<close>: a surrogate pair is one code point of four bytes, a surrogate
  without its partner is written as U+FFFD.
\<close>

fun utf8Encode :: "ustring \<Rightarrow> byte list" where
  "utf8Encode [] = []"
| "utf8Encode (u # us) =
     (if isHighSurrogate u then
        (case us of
           [] \<Rightarrow> utf8Bytes 0xFFFD
         | l # us' \<Rightarrow>
             if isLowSurrogate l
             then utf8Bytes (0x10000 + (unat u - 0xD800) * 1024 + (unat l - 0xDC00))
                    @ utf8Encode us'
             else utf8Bytes 0xFFFD @ utf8Encode us)
      else if isLowSurrogate u then utf8Bytes 0xFFFD @ utf8Encode us
      else utf8Bytes (unat u) @ utf8Encode us)"

text \<open>
  One step of the decoder behind \<open>buffer.toString("utf8")\<close>: the code point read at the
  head of a non-empty input and the bytes that remain. An ill-formed sequence yields U+FFFD
  for its longest prefix that could still start a code point, and decoding goes on after
  that prefix; nothing is ever rejected.
\<close>

definition isCont :: "nat \<Rightarrow> nat \<Rightarrow> nat \<Rightarrow> bool" where
  "isCont lo hi b = (lo \<le> b \<and> b \<le> hi)"

definition utf8First :: "byte \<Rightarrow> byte list \<Rightarrow> nat \<times> byte list" where
  "utf8First b0 bs =
     (let n0 = unat b0 in
      if n0 < 0x80 then (n0, bs)
      else if 0xC2 \<le> n0 \<and> n0 \<le> 0xDF then
        (case bs of
           [] \<Rightarrow> (0xFFFD, bs)
         | b1 # r1 \<Rightarrow>
             if isCont 0x80 0xBF (unat b1)
             then ((n0 - 0xC0) * 64 + (unat b1 - 0x80), r1)
             else (0xFFFD, bs))
      else if 0xE0 \<le> n0 \<and> n0 \<le> 0xEF then
        (case bs of
           [] \<Rightarrow> (0xFFFD, bs)
         | b1 # r1 \<Rightarrow>
             if isCont (if n0 = 0xE0 then 0xA0 else 0x80) (if n0 = 0xED then 0x9F else 0xBF)
                  (unat b1)
             then
               (case r1 of
                  [] \<Rightarrow> (0xFFFD, r1)
                | b2 # r2 \<Rightarrow>
                    if isCont 0x80 0xBF (unat b2)
                    then ((n0 - 0xE0) * 4096 + (unat b1 - 0x80) * 64 + (unat b2 - 0x80), r2)
                    else (0xFFFD, r1))
             else (0xFFFD, bs))
      else if 0xF0 \<le> n0 \<and> n0 \<le> 0xF4 then
        (case bs of
           [] \<Rightarrow> (0xFFFD, bs)
         | b1 # r1 \<Rightarrow>
             if isCont (if n0 = 0xF0 then 0x90 else 0x80) (if n0 = 0xF4 then 0x8F else 0xBF)
                  (unat b1)
             then
               (case r1 of
                  [] \<Rightarrow> (0xFFFD, r1)
                | b2 # r2 \<Rightarrow>
                    if isCont 0x80 0xBF (unat b2)
                    then
                      (case r2 of
                         [] \<Rightarrow> (0xFFFD, r2)
                       | b3 # r3 \<Rightarrow>
                           if isCont 0x80 0xBF (unat b3)
                           then ((n0 - 0xF0) * 262144 + (unat b1 - 0x80) * 4096
                                   + (unat b2 - 0x80) * 64 + (unat b3 - 0x80), r3)
                           else (0xFFFD, r2))
                    else (0xFFFD, r1))
             else (0xFFFD, bs))
      else (0xFFFD, bs))"

text \<open>The code units of one code point: itself, or a surrogate pair above the BMP.\<close>

definition unitsOf :: "nat \<Rightarrow> ustring" where
  "unitsOf cp =
     (if cp < 0x10000 then [unitOf cp]
      else [unitOf (0xD800 + (cp - 0x10000) div 1024),
            unitOf (0xDC00 + (cp - 0x10000) mod 1024)])"

lemma utf8First_shorter: "length (snd (utf8First b bs)) \<le> length bs"
  by (simp add: utf8First_def Let_def split: list.split)

function utf8Decode :: "byte list \<Rightarrow> ustring" where
  "utf8Decode [] = []"
| "utf8Decode (b # bs) = unitsOf (fst (utf8First b bs)) @ utf8Decode (snd (utf8First b bs))"
  by pat_completeness auto
termination
  by (relation "measure length") (auto simp: utf8First_shorter less_Suc_eq_le)

subsection \<open>The hasher\<close>

definition hexDigit :: "nat \<Rightarrow> unit16" where
  "hexDigit d = unitOf (if d < 10 then 0x30 + d else 0x61 + (d - 10))"

definition hexOfByte :: "byte \<Rightarrow> ustring" where
  "hexOfByte b = [hexDigit (unat b div 16), hexDigit (unat b mod 16)]"

text \<open>
  \<open>computeSHA256\<close>: the SHA-256 digest of the buffer, rendered by \<open>digest("hex")\<close> as two
  lower-case hexadecimal digits per byte. The digest function itself belongs to the
  platform's crypto library and is the parameter \<open>sha\<close>.
\<close>

definition computeSHA256 :: "(byte list \<Rightarrow> byte list) \<Rightarrow> byte list \<Rightarrow> ustring" where
  "computeSHA256 sha fileBuffer = concat (map hexOfByte (sha fileBuffer))"

section \<open>JSON\<close>

text \<open>
  The values \<open>JSON.parse\<close> returns. A number holds the exact value of its decimal literal
  (the rounding to a double is not modelled). An object is the list of its properties in
  the order they were first set, each key once; a repeated key in the text keeps its first
  position and takes the last value. (JavaScript lists keys that are array indices first;
  the notes of this program have none, and the model keeps insertion order for all keys.)
\<close>

datatype json =
    JNull
  | JBool bool
  | JNum rat
  | JStr ustring
  | JArr "json list"
  | JObj "(ustring \<times> json) list"

fun setProp :: "ustring \<Rightarrow> 'v \<Rightarrow> (ustring \<times> 'v) list \<Rightarrow> (ustring \<times> 'v) list" where
  "setProp k v [] = [(k, v)]"
| "setProp k v ((k', v') # ps) =
     (if k' = k then (k, v) # ps else (k', v') # setProp k v ps)"

definition mkObject :: "(ustring \<times> 'v) list \<Rightarrow> (ustring \<times> 'v) list" where
  "mkObject ms = fold (\<lambda>(k, v). setProp k v) ms []"

text \<open>
  \<open>JSON.parse\<close> as a recursive-descent parser over the JSON grammar. Each function returns
  the value read and the text that remains, or \<open>None\<close> where \<open>JSON.parse\<close> throws a
  SyntaxError. The tests \<open>length r < length cs\<close> always hold there (every value takes at
  least one code unit); they make the recursion visibly terminate.
\<close>

definition isJsonSpace :: "unit16 \<Rightarrow> bool" where
  "isJsonSpace c = (c = 0x20 \<or> c = 0x09 \<or> c = 0x0A \<or> c = 0x0D)"

definition skipWs :: "ustring \<Rightarrow> ustring" where
  "skipWs cs = dropWhile isJsonSpace cs"

definition isDigit :: "unit16 \<Rightarrow> bool" where
  "isDigit c = (0x30 \<le> c \<and> c \<le> 0x39)"

definition digitsVal :: "ustring \<Rightarrow> nat" where
  "digitsVal ds = foldl (\<lambda>a c. 10 * a + (unat c - 0x30)) 0 ds"

definition hexVal :: "unit16 \<Rightarrow> nat option" where
  "hexVal c =
     (if 0x30 \<le> c \<and> c \<le> 0x39 then Some (unat c - 0x30)
      else if 0x61 \<le> c \<and> c \<le> 0x66 then Some (unat c - 0x61 + 10)
      else if 0x41 \<le> c \<and> c \<le> 0x46 then Some (unat c - 0x41 + 10)
      else None)"

definition unescape :: "unit16 \<Rightarrow> unit16 option" where
  "unescape e =
     (if e = 0x22 then Some 0x22
      else if e = 0x5C then Some 0x5C
      else if e = 0x2F then Some 0x2F
      else if e = 0x62 then Some 0x08
      else if e = 0x66 then Some 0x0C
      else if e = 0x6E then Some 0x0A
      else if e = 0x72 then Some 0x0D
      else if e = 0x74 then Some 0x09
      else None)"

definition consUnit :: "unit16 \<Rightarrow> (ustring \<times> ustring) option \<Rightarrow> (ustring \<times> ustring) option" where
  "consUnit u r = (case r of None \<Rightarrow> None | Some (s, rest) \<Rightarrow> Some (u # s, rest))"

fun parseChars :: "ustring \<Rightarrow> (ustring \<times> ustring) option" where
  "parseChars [] = None"
| "parseChars (c # cs) =
     (if c = 0x22 then Some ([], cs)
      else if c = 0x5C then
        (case cs of
           [] \<Rightarrow> None
         | e # cs1 \<Rightarrow>
             if e = 0x75 then
               (case cs1 of
                  h1 # h2 # h3 # h4 # cs2 \<Rightarrow>
                    (case (hexVal h1, hexVal h2, hexVal h3, hexVal h4) of
                       (Some d1, Some d2, Some d3, Some d4) \<Rightarrow>
                         consUnit (unitOf (((d1 * 16 + d2) * 16 + d3) * 16 + d4)) (parseChars cs2)
                     | _ \<Rightarrow> None)
                | _ \<Rightarrow> None)
             else
               (case unescape e of
                  None \<Rightarrow> None
                | Some u \<Rightarrow> consUnit u (parseChars cs1)))
      else if c < 0x20 then None
      else consUnit c (parseChars cs))"

definition parseInt :: "ustring \<Rightarrow> (nat \<times> ustring) option" where
  "parseInt cs =
     (case cs of
        [] \<Rightarrow> None
      | c # r \<Rightarrow>
          if c = 0x30 then Some (0, r)
          else if isDigit c then Some (digitsVal (takeWhile isDigit cs), dropWhile isDigit cs)
          else None)"

definition parseFrac :: "ustring \<Rightarrow> (rat \<times> ustring) option" where
  "parseFrac cs =
     (case cs of
        [] \<Rightarrow> Some (0, cs)
      | c # r \<Rightarrow>
          if c = 0x2E then
            (let ds = takeWhile isDigit r
             in if ds = [] then None
                else Some (of_nat (digitsVal ds) / 10 ^ length ds, dropWhile isDigit r))
          else Some (0, cs))"

definition parseExp :: "ustring \<Rightarrow> (int \<times> ustring) option" where
  "parseExp cs =
     (case cs of
        [] \<Rightarrow> Some (0, cs)
      | c # r \<Rightarrow>
          if c = 0x65 \<or> c = 0x45 then
            (let neg = (case r of [] \<Rightarrow> False | s # _ \<Rightarrow> s = 0x2D);
                 r1 = (case r of [] \<Rightarrow> r | s # r' \<Rightarrow> if s = 0x2B \<or> s = 0x2D then r' else r);
                 ds = takeWhile isDigit r1
             in if ds = [] then None
                else Some ((if neg then - int (digitsVal ds) else int (digitsVal ds)),
                           dropWhile isDigit r1))
          else Some (0, cs))"

definition parseNumber :: "ustring \<Rightarrow> (json \<times> ustring) option" where
  "parseNumber cs =
     (let neg = (case cs of [] \<Rightarrow> False | c # _ \<Rightarrow> c = 0x2D);
          cs1 = (if neg then tl cs else cs)
      in case parseInt cs1 of
           None \<Rightarrow> None
         | Some (n, r1) \<Rightarrow>
             (case parseFrac r1 of
                None \<Rightarrow> None
              | Some (f, r2) \<Rightarrow>
                  (case parseExp r2 of
                     None \<Rightarrow> None
                   | Some (e, r3) \<Rightarrow>
                       Some (JNum ((if neg then - 1 else 1) * (of_nat n + f)
                                     * (if 0 \<le> e then 10 ^ nat e else 1 / 10 ^ nat (- e))),
                             r3))))"

definition parseLiteral :: "ustring \<Rightarrow> (json \<times> ustring) option" where
  "parseLiteral cs =
     (if take 4 cs = lit ''null'' then Some (JNull, drop 4 cs)
      else if take 4 cs = lit ''true'' then Some (JBool True, drop 4 cs)
      else if take 5 cs = lit ''false'' then Some (JBool False, drop 5 cs)
      else None)"

lemma skipWs_Cons_shorter: "skipWs cs = d # ds \<Longrightarrow> length ds < length cs"
proof -
  assume h: "skipWs cs = d # ds"
  have "length (skipWs cs) \<le> length cs"
    unfolding skipWs_def by (rule length_dropWhile_le)
  with h show ?thesis by simp
qed

function parseValue :: "ustring \<Rightarrow> (json \<times> ustring) option"
  and parseElements :: "ustring \<Rightarrow> (json list \<times> ustring) option"
  and parseMembers :: "ustring \<Rightarrow> ((ustring \<times> json) list \<times> ustring) option"
where
  "parseValue cs =
     (case cs of
        [] \<Rightarrow> None
      | c # cs' \<Rightarrow>
          if isJsonSpace c then parseValue cs'
          else if c = 0x5B then
            (case skipWs cs' of
               [] \<Rightarrow> None
             | d # ds \<Rightarrow>
                 if d = 0x5D then Some (JArr [], ds)
                 else (case parseElements (d # ds) of
                         None \<Rightarrow> None
                       | Some (vs, r) \<Rightarrow> Some (JArr vs, r)))
          else if c = 0x7B then
            (case skipWs cs' of
               [] \<Rightarrow> None
             | d # ds \<Rightarrow>
                 if d = 0x7D then Some (JObj [], ds)
                 else (case parseMembers (d # ds) of
                         None \<Rightarrow> None
                       | Some (ms, r) \<Rightarrow> Some (JObj (mkObject ms), r)))
          else if c = 0x22 then
            (case parseChars cs' of
               None \<Rightarrow> None
             | Some (s, r) \<Rightarrow> Some (JStr s, r))
          else if c = 0x2D \<or> isDigit c then parseNumber cs
          else parseLiteral cs)"
| "parseElements cs =
     (case parseValue cs of
        None \<Rightarrow> None
      | Some (v, r) \<Rightarrow>
          if length r < length cs then
            (case skipWs r of
               [] \<Rightarrow> None
             | d # ds \<Rightarrow>
                 if d = 0x5D then Some ([v], ds)
                 else if d = 0x2C then
                   (case parseElements ds of
                      None \<Rightarrow> None
                    | Some (vs, r') \<Rightarrow> Some (v # vs, r'))
                 else None)
          else None)"
| "parseMembers cs =
     (case skipWs cs of
        [] \<Rightarrow> None
      | q # cs1 \<Rightarrow>
          if q = 0x22 then
            (case parseChars cs1 of
               None \<Rightarrow> None
             | Some (k, r1) \<Rightarrow>
                 (case skipWs r1 of
                    [] \<Rightarrow> None
                  | e # r2 \<Rightarrow>
                      if e = 0x3A \<and> length r2 < length cs then
                        (case parseValue r2 of
                           None \<Rightarrow> None
                         | Some (v, r3) \<Rightarrow>
                             if length r3 < length r2 then
                               (case skipWs r3 of
                                  [] \<Rightarrow> None
                                | d # ds \<Rightarrow>
                                    if d = 0x7D then Some ([(k, v)], ds)
                                    else if d = 0x2C then
                                      (case parseMembers ds of
                                         None \<Rightarrow> None
                                       | Some (ms, r') \<Rightarrow> Some ((k, v) # ms, r'))
                                    else None)
                             else None)
                      else None))
          else None)"
  by pat_completeness auto
termination
  by (relation "measure (\<lambda>x. case x of
          Inl cs \<Rightarrow> 2 * length cs
        | Inr (Inl cs) \<Rightarrow> 2 * length cs + 1
        | Inr (Inr cs) \<Rightarrow> 2 * length cs + 1)")
     (auto dest: skipWs_Cons_shorter)

definition JSON_parse :: "ustring \<Rightarrow> json option" where
  "JSON_parse text =
     (case parseValue text of
        None \<Rightarrow> None
      | Some (v, r) \<Rightarrow> if skipWs r = [] then Some v else None)"

subsection \<open>Serialisation\<close>

text \<open>
  \<open>JSON.stringify\<close> on the payloads this program serialises: one flat object whose values
  are strings, non-negative integers (printed in decimal) or null, with no indentation.
\<close>

datatype pvalue = PStr ustring | PNum nat | PNull

function decimal :: "nat \<Rightarrow> ustring" where
  "decimal n =
     (if n < 10 then [unitOf (0x30 + n)] else decimal (n div 10) @ [unitOf (0x30 + n mod 10)])"
  by pat_completeness auto
termination
  by (relation "measure id") auto

definition hex4 :: "nat \<Rightarrow> ustring" where
  "hex4 c =
     [hexDigit (c div 4096), hexDigit ((c div 256) mod 16), hexDigit ((c div 16) mod 16),
      hexDigit (c mod 16)]"

definition unicodeEscape :: "unit16 \<Rightarrow> ustring" where
  "unicodeEscape c = [0x5C, 0x75] @ hex4 (unat c)"

text \<open>
  The body of a quoted string: the short escapes, \<open>\u00XX\<close> for the other control
  characters and for a surrogate without its partner, every other code unit as it is.
\<close>

fun quoteUnits :: "ustring \<Rightarrow> ustring" where
  "quoteUnits [] = []"
| "quoteUnits (u # us) =
     (if u = 0x08 then [0x5C, 0x62] @ quoteUnits us
      else if u = 0x09 then [0x5C, 0x74] @ quoteUnits us
      else if u = 0x0A then [0x5C, 0x6E] @ quoteUnits us
      else if u = 0x0C then [0x5C, 0x66] @ quoteUnits us
      else if u = 0x0D then [0x5C, 0x72] @ quoteUnits us
      else if u = 0x22 then [0x5C, 0x22] @ quoteUnits us
      else if u = 0x5C then [0x5C, 0x5C] @ quoteUnits us
      else if u < 0x20 then unicodeEscape u @ quoteUnits us
      else if isHighSurrogate u then
        (case us of
           [] \<Rightarrow> unicodeEscape u
         | l # us' \<Rightarrow>
             if isLowSurrogate l then u # l # quoteUnits us'
             else unicodeEscape u @ quoteUnits us)
      else if isLowSurrogate u then unicodeEscape u @ quoteUnits us
      else u # quoteUnits us)"

definition quoteJSONString :: "ustring \<Rightarrow> ustring" where
  "quoteJSONString s = 0x22 # quoteUnits s @ [0x22]"

definition serializeValue :: "pvalue \<Rightarrow> ustring" where
  "serializeValue v =
     (case v of
        PStr s \<Rightarrow> quoteJSONString s
      | PNum n \<Rightarrow> decimal n
      | PNull \<Rightarrow> lit ''null'')"

definition serializeMember :: "ustring \<times> pvalue \<Rightarrow> ustring" where
  "serializeMember m = quoteJSONString (fst m) @ [0x3A] @ serializeValue (snd m)"

fun serializeMembers :: "(ustring \<times> pvalue) list \<Rightarrow> ustring" where
  "serializeMembers [] = []"
| "serializeMembers [m] = serializeMember m"
| "serializeMembers (m # ms) = serializeMember m @ [0x2C] @ serializeMembers ms"

definition JSON_stringify :: "(ustring \<times> pvalue) list \<Rightarrow> ustring" where
  "JSON_stringify ps = [0x7B] @ serializeMembers ps @ [0x7D]"

section \<open>The note codec (algorand.js)\<close>

text \<open>
  \<open>buildTrustChainNote(hash, metadata)\<close>: the object literal
  \<open>{ app, hash, ...metadata, createdAt }\<close>, serialised and encoded. A key of the metadata
  that is already there replaces the value and keeps the position. \<open>now\<close> is the reading of
  the clock, \<open>new Date().toISOString()\<close>. Nothing measures the result.
\<close>

definition notePayload :: "ustring \<Rightarrow> ustring \<Rightarrow> (ustring \<times> pvalue) list
    \<Rightarrow> (ustring \<times> pvalue) list" where
  "notePayload now hash metadata =
     setProp (lit ''createdAt'') (PStr now)
       (fold (\<lambda>(k, v). setProp k v) metadata
          [(lit ''app'', PStr (lit ''TrustChain'')), (lit ''hash'', PStr hash)])"

definition buildTrustChainNote :: "ustring \<Rightarrow> ustring \<Rightarrow> (ustring \<times> pvalue) list \<Rightarrow> byte list" where
  "buildTrustChainNote now hash metadata = utf8Encode (JSON_stringify (notePayload now hash metadata))"

text \<open>
  A transaction as the indexer returns it. The note is held as the byte sequence that its
  base64 text denotes (\<open>Buffer.from(note, "base64")\<close>); an empty text is an empty sequence.
\<close>

record transaction =
  tx_id :: ustring
  tx_type :: ustring
  tx_round_time :: "nat option"
  tx_confirmed_round :: "nat option"
  tx_note :: "byte list option"
  tx_created_asset_index :: "nat option"

definition decodeNote :: "transaction option \<Rightarrow> ustring option" where
  "decodeNote t =
     (case t of
        None \<Rightarrow> None
      | Some tx \<Rightarrow>
          (case tx_note tx of
             None \<Rightarrow> None
           | Some bs \<Rightarrow> if bs = [] then None else Some (utf8Decode bs)))"

text \<open>
  \<open>parseNotePayload\<close> returns a JavaScript value; \<open>JNull\<close> is its \<open>null\<close>, returned for a
  missing note, for an empty text, when \<open>JSON.parse\<close> throws (the exception is caught), and
  also when the text is the JSON literal \<open>null\<close>.
\<close>

definition parseNotePayload :: "transaction option \<Rightarrow> json" where
  "parseNotePayload t =
     (case decodeNote t of
        None \<Rightarrow> JNull
      | Some noteText \<Rightarrow>
          if noteText = [] then JNull
          else (case JSON_parse noteText of None \<Rightarrow> JNull | Some v \<Rightarrow> v))"

text \<open>JavaScript truthiness, and the read of a property (\<open>None\<close> is \<open>undefined\<close>).\<close>

fun truthy :: "json \<Rightarrow> bool" where
  "truthy JNull = False"
| "truthy (JBool b) = b"
| "truthy (JNum q) = (q \<noteq> 0)"
| "truthy (JStr s) = (s \<noteq> [])"
| "truthy (JArr vs) = True"
| "truthy (JObj ps) = True"

fun getProp :: "json \<Rightarrow> ustring \<Rightarrow> json option" where
  "getProp (JObj ps) k = map_of ps k"
| "getProp v k = None"

text \<open>The first match of the regular expression \<open>/[a-f0-9]{64}/i\<close>.\<close>

definition isHexUnit :: "unit16 \<Rightarrow> bool" where
  "isHexUnit c =
     ((0x30 \<le> c \<and> c \<le> 0x39) \<or> (0x61 \<le> c \<and> c \<le> 0x66) \<or> (0x41 \<le> c \<and> c \<le> 0x46))"

fun matchHash :: "ustring \<Rightarrow> ustring option" where
  "matchHash [] = None"
| "matchHash (c # cs) =
     (if 64 \<le> length (c # cs) \<and> list_all isHexUnit (take 64 (c # cs))
      then Some (take 64 (c # cs))
      else matchHash cs)"

definition parseHashFromTransaction :: "transaction option \<Rightarrow> ustring option" where
  "parseHashFromTransaction t =
     (let parsed = parseNotePayload t
      in case (if truthy parsed then getProp parsed (lit ''hash'') else None) of
           Some (JStr h) \<Rightarrow> Some (toLowerCase h)
         | _ \<Rightarrow>
             (case decodeNote t of
                None \<Rightarrow> None
              | Some noteText \<Rightarrow>
                  if noteText = [] then None
                  else (case matchHash noteText of
                          None \<Rightarrow> None
                        | Some m \<Rightarrow> Some (toLowerCase m))))"

text \<open>
  \<open>fetchIssuerTransactionHistory\<close> maps every transaction of the indexer's answer to an
  entry. \<open>x || null\<close> on a number is \<open>orNull\<close>; a missing value of the note is \<open>JNull\<close>.
\<close>

record history_entry =
  entry_id :: ustring
  entry_type :: ustring
  roundTime :: "nat option"
  confirmedRound :: "nat option"
  hash :: json
  noteType :: json
  entry_note :: json
  assetId :: "nat option"

definition orNull :: "nat option \<Rightarrow> nat option" where
  "orNull x = (case x of None \<Rightarrow> None | Some n \<Rightarrow> if n = 0 then None else Some n)"

definition truthyProp :: "json \<Rightarrow> ustring \<Rightarrow> json" where
  "truthyProp v k =
     (if truthy v then
        (case getProp v k of
           None \<Rightarrow> JNull
         | Some x \<Rightarrow> if truthy x then x else JNull)
      else JNull)"

definition summarize :: "transaction \<Rightarrow> history_entry" where
  "summarize tx =
     (let parsedNote = parseNotePayload (Some tx)
      in \<lparr>entry_id = tx_id tx,
          entry_type = tx_type tx,
          roundTime = orNull (tx_round_time tx),
          confirmedRound = orNull (tx_confirmed_round tx),
          hash = truthyProp parsedNote (lit ''hash''),
          noteType = truthyProp parsedNote (lit ''type''),
          entry_note = (if truthy parsedNote then parsedNote else JNull),
          assetId = orNull (tx_created_asset_index tx)\<rparr>)"

section \<open>The ledger collaborators\<close>

text \<open>
  The SDK and the network behind it are not part of the repository: they are a parameter.
  Every request that leaves the process is recorded as a \<open>call\<close>; a handler returns its
  reply together with the trace of the calls it made, in order. What the network answers
  may depend on the calls made before, so each operation also receives the trace so far.
  A thrown error is \<open>Inl\<close> of its message.
\<close>

datatype txn =
    PaymentTxn ustring ustring nat "byte list"
  | AssetCreateTxn ustring nat nat bool ustring ustring ustring "byte list"

datatype call =
    AccountInformation ustring
  | GetTransactionParams
  | SendRawTransaction txn
  | WaitForConfirmation ustring
  | LookupTransactionByID ustring
  | SearchForTransactions ustring nat

record account_info =
  acct_amount :: nat
  acct_min_balance :: nat

record confirmation =
  conf_confirmed_round :: "nat option"
  conf_asset_index :: "nat option"

record sdk =
  mnemonicToSecretKey :: "ustring \<Rightarrow> ustring + ustring"
  accountInformation :: "call list \<Rightarrow> ustring \<Rightarrow> ustring + account_info"
  getTransactionParams :: "call list \<Rightarrow> ustring + unit"
  sendRawTransaction :: "call list \<Rightarrow> txn \<Rightarrow> ustring + ustring"
  waitForConfirmation :: "call list \<Rightarrow> ustring \<Rightarrow> ustring + confirmation"
  lookupTransactionByID :: "call list \<Rightarrow> ustring \<Rightarrow> ustring + transaction option"
  searchForTransactions :: "call list \<Rightarrow> ustring \<Rightarrow> nat \<Rightarrow> ustring + transaction list"

text \<open>
  The process environment. \<open>issueMinRecommendedMicroAlgos\<close> is
  \<open>Number(process.env.ISSUE_MIN_RECOMMENDED_MICROALGOS || 350000)\<close>; the variable is held as
  the integer its text denotes (a text that is no number gives NaN, which is outside this
  model).
\<close>

record config =
  ALGORAND_MNEMONIC :: "ustring option"
  ISSUE_MIN_RECOMMENDED_MICROALGOS :: "int option"

definition issueMinRecommendedMicroAlgos :: "config \<Rightarrow> int" where
  "issueMinRecommendedMicroAlgos cfg =
     (case ISSUE_MIN_RECOMMENDED_MICROALGOS cfg of None \<Rightarrow> 350000 | Some n \<Rightarrow> n)"

definition testnetFundingUrl :: string where
  "testnetFundingUrl = ''https://lora.algokit.io/testnet/fund''"

definition getIssuerAccount :: "sdk \<Rightarrow> config \<Rightarrow> ustring + ustring" where
  "getIssuerAccount S cfg =
     (case ALGORAND_MNEMONIC cfg of
        None \<Rightarrow>
          Inl (lit ''ALGORAND_MNEMONIC is required in backend/.env to issue proofs and load issuer history'')
      | Some mnemonic \<Rightarrow>
          if trim mnemonic = [] then
            Inl (lit ''ALGORAND_MNEMONIC is required in backend/.env to issue proofs and load issuer history'')
          else mnemonicToSecretKey S mnemonic)"

definition getIssuerAddress :: "sdk \<Rightarrow> config \<Rightarrow> ustring + ustring" where
  "getIssuerAddress S cfg = getIssuerAccount S cfg"

record account_state =
  st_address :: ustring
  st_amount :: nat
  st_minBalance :: nat
  st_spendable :: nat

definition fetchIssuerAccountState :: "sdk \<Rightarrow> config \<Rightarrow> call list
    \<Rightarrow> (ustring + account_state) \<times> call list" where
  "fetchIssuerAccountState S cfg tr =
     (case getIssuerAddress S cfg of
        Inl e \<Rightarrow> (Inl e, tr)
      | Inr address \<Rightarrow>
          (case accountInformation S tr address of
             Inl e \<Rightarrow> (Inl e, tr @ [AccountInformation address])
           | Inr account \<Rightarrow>
               (Inr \<lparr>st_address = address,
                     st_amount = acct_amount account,
                     st_minBalance = acct_min_balance account,
                     st_spendable = acct_amount account - acct_min_balance account\<rparr>,
                tr @ [AccountInformation address])))"

record file_metadata =
  fm_fileName :: ustring
  fm_mimeType :: ustring
  fm_fileSize :: nat
  fm_referenceLabel :: "ustring option"

definition labelOrNull :: "ustring option \<Rightarrow> pvalue" where
  "labelOrNull l = (case l of None \<Rightarrow> PNull | Some s \<Rightarrow> if s = [] then PNull else PStr s)"

record proof_transaction =
  pt_txId :: ustring
  pt_confirmedRound :: "nat option"
  pt_noteHash :: ustring

definition proofNote :: "ustring \<Rightarrow> ustring \<Rightarrow> file_metadata \<Rightarrow> byte list" where
  "proofNote now h fileMetadata =
     buildTrustChainNote now h
       [(lit ''type'', PStr (lit ''proof'')),
        (lit ''fileName'', PStr (fm_fileName fileMetadata)),
        (lit ''mimeType'', PStr (fm_mimeType fileMetadata)),
        (lit ''fileSize'', PNum (fm_fileSize fileMetadata)),
        (lit ''referenceLabel'', labelOrNull (fm_referenceLabel fileMetadata))]"

definition createProofTransaction :: "sdk \<Rightarrow> config \<Rightarrow> ustring \<Rightarrow> ustring \<Rightarrow> file_metadata
    \<Rightarrow> call list \<Rightarrow> (ustring + proof_transaction) \<times> call list" where
  "createProofTransaction S cfg now h fileMetadata tr =
     (case getIssuerAccount S cfg of
        Inl e \<Rightarrow> (Inl e, tr)
      | Inr sender \<Rightarrow>
          (case getTransactionParams S tr of
             Inl e \<Rightarrow> (Inl e, tr @ [GetTransactionParams])
           | Inr _ \<Rightarrow>
               (let tr1 = tr @ [GetTransactionParams];
                    transaction = PaymentTxn sender sender 0 (proofNote now h fileMetadata);
                    tr2 = tr1 @ [SendRawTransaction transaction]
                in case sendRawTransaction S tr1 transaction of
                     Inl e \<Rightarrow> (Inl e, tr2)
                   | Inr txId \<Rightarrow>
                       (case waitForConfirmation S tr2 txId of
                          Inl e \<Rightarrow> (Inl e, tr2 @ [WaitForConfirmation txId])
                        | Inr confirmation \<Rightarrow>
                            (Inr \<lparr>pt_txId = txId,
                                  pt_confirmedRound = conf_confirmed_round confirmation,
                                  pt_noteHash = h\<rparr>,
                             tr2 @ [WaitForConfirmation txId])))))"

record asset_transaction =
  at_txId :: ustring
  at_assetId :: "nat option"
  at_confirmedRound :: "nat option"

definition assetNote :: "ustring \<Rightarrow> ustring \<Rightarrow> ustring \<Rightarrow> ustring option \<Rightarrow> byte list" where
  "assetNote now h fileName referenceLabel =
     buildTrustChainNote now h
       [(lit ''type'', PStr (lit ''asa'')),
        (lit ''fileName'', PStr fileName),
        (lit ''referenceLabel'', labelOrNull referenceLabel)]"

text \<open>
  \<open>mintProofAsset\<close> reads the clock twice: \<open>now\<close> for the note and \<open>today\<close> for the day stamp in
  the asset name. The issuer's address is also the manager, reserve, freeze and clawback
  address of the asset.
\<close>

definition mintProofAsset :: "sdk \<Rightarrow> config \<Rightarrow> ustring \<Rightarrow> ustring \<Rightarrow> ustring \<Rightarrow> ustring
    \<Rightarrow> ustring option \<Rightarrow> call list \<Rightarrow> (ustring + asset_transaction) \<times> call list" where
  "mintProofAsset S cfg now today h fileName referenceLabel tr =
     (case getIssuerAccount S cfg of
        Inl e \<Rightarrow> (Inl e, tr)
      | Inr address \<Rightarrow>
          (case getTransactionParams S tr of
             Inl e \<Rightarrow> (Inl e, tr @ [GetTransactionParams])
           | Inr _ \<Rightarrow>
               (let tr1 = tr @ [GetTransactionParams];
                    transaction =
                      AssetCreateTxn address 1 0 False (lit ''TRUSTPRF'')
                        (lit ''TrustChain Proof '' @ take 10 today)
                        (lit ''https://trustchain.app/proof/'' @ take 32 h)
                        (assetNote now h fileName referenceLabel);
                    tr2 = tr1 @ [SendRawTransaction transaction]
                in case sendRawTransaction S tr1 transaction of
                     Inl e \<Rightarrow> (Inl e, tr2)
                   | Inr txId \<Rightarrow>
                       (case waitForConfirmation S tr2 txId of
                          Inl e \<Rightarrow> (Inl e, tr2 @ [WaitForConfirmation txId])
                        | Inr confirmation \<Rightarrow>
                            (Inr \<lparr>at_txId = txId,
                                  at_assetId = conf_asset_index confirmation,
                                  at_confirmedRound = conf_confirmed_round confirmation\<rparr>,
                             tr2 @ [WaitForConfirmation txId])))))"


definition fetchIssuerTransactionHistory :: "sdk \<Rightarrow> config \<Rightarrow> nat \<Rightarrow> call list
    \<Rightarrow> (ustring + history_entry list) \<times> call list" where
  "fetchIssuerTransactionHistory S cfg limit tr =
     (case getIssuerAddress S cfg of
        Inl e \<Rightarrow> (Inl e, tr)
      | Inr address \<Rightarrow>
          (case searchForTransactions S tr address limit of
             Inl e \<Rightarrow> (Inl e, tr @ [SearchForTransactions address limit])
           | Inr transactions \<Rightarrow>
               (Inr (map summarize transactions), tr @ [SearchForTransactions address limit])))"


section \<open>The routes (routes.js)\<close>

definition isMissingMnemonicError :: "ustring \<Rightarrow> bool" where
  "isMissingMnemonicError message = includesStr message (lit ''ALGORAND_MNEMONIC'')"

definition isInsufficientFundsError :: "ustring \<Rightarrow> bool" where
  "isInsufficientFundsError message = includesStr (toLowerCase message) (lit ''overspend'')"

record issuer_status = account_state +
  canIssue :: bool
  requiredForIssue :: int
  fundingUrl :: string

definition buildIssuerStatus :: "config \<Rightarrow> account_state \<Rightarrow> issuer_status" where
  "buildIssuerStatus cfg accountState =
     \<lparr>st_address = st_address accountState,
      st_amount = st_amount accountState,
      st_minBalance = st_minBalance accountState,
      st_spendable = st_spendable accountState,
      canIssue = (issueMinRecommendedMicroAlgos cfg \<le> int (st_amount accountState)),
      requiredForIssue = issueMinRecommendedMicroAlgos cfg,
      fundingUrl = testnetFundingUrl\<rparr>"

subsection \<open>History reconstruction\<close>

record proof_record =
  pr_id :: ustring
  pr_fileName :: json
  pr_referenceLabel :: json
  pr_mimeType :: json
  pr_fileSize :: json
  pr_hash :: json
  pr_transactionId :: ustring
  pr_transactionRound :: "nat option"
  pr_assetId :: "nat option"
  pr_issuedAt :: "nat option"

text \<open>
  The \<open>Map\<close> from fingerprint to asset id, filled in the order of the window. A \<open>Map\<close>
  compares strings, numbers, booleans and null by value and objects by identity: the
  object of one parsed note is never the key stored from another, so \<open>mapGet\<close> finds
  nothing under an array or an object.
\<close>

definition assetStep :: "history_entry \<Rightarrow> (json \<rightharpoonup> nat) \<Rightarrow> (json \<rightharpoonup> nat)" where
  "assetStep transaction m =
     (if noteType transaction = JStr (lit ''asa'') \<and> truthy (hash transaction) then
        (case assetId transaction of
           None \<Rightarrow> m
         | Some a \<Rightarrow> if a = 0 then m else m(hash transaction \<mapsto> a))
      else m)"

definition assetByHash :: "history_entry list \<Rightarrow> (json \<rightharpoonup> nat)" where
  "assetByHash transactions = fold assetStep transactions Map.empty"

definition isPrimitive :: "json \<Rightarrow> bool" where
  "isPrimitive v = (case v of JArr _ \<Rightarrow> False | JObj _ \<Rightarrow> False | _ \<Rightarrow> True)"

definition mapGet :: "(json \<rightharpoonup> nat) \<Rightarrow> json \<Rightarrow> nat option" where
  "mapGet m k = (if isPrimitive k then m k else None)"

text \<open>\<open>note.key || fallback\<close>, where \<open>note\<close> is \<open>transaction.note || {}\<close>.\<close>

definition propOr :: "json \<Rightarrow> ustring \<Rightarrow> json \<Rightarrow> json" where
  "propOr note k fallback =
     (case getProp note k of
        None \<Rightarrow> fallback
      | Some x \<Rightarrow> if truthy x then x else fallback)"

text \<open>
  One record of the listing. \<open>pr_issuedAt\<close> holds the milliseconds given to \<open>new Date\<close>; its
  rendering by \<open>toISOString\<close> is not modelled.
\<close>

definition toProofRecord :: "(json \<rightharpoonup> nat) \<Rightarrow> history_entry \<Rightarrow> proof_record" where
  "toProofRecord m transaction =
     \<lparr>pr_id = entry_id transaction,
      pr_fileName = propOr (entry_note transaction) (lit ''fileName'') (JStr (lit ''Untitled file'')),
      pr_referenceLabel = propOr (entry_note transaction) (lit ''referenceLabel'') JNull,
      pr_mimeType = propOr (entry_note transaction) (lit ''mimeType'') JNull,
      pr_fileSize = propOr (entry_note transaction) (lit ''fileSize'') JNull,
      pr_hash = hash transaction,
      pr_transactionId = entry_id transaction,
      pr_transactionRound = confirmedRound transaction,
      pr_assetId = orNull (mapGet m (hash transaction)),
      pr_issuedAt =
        (case roundTime transaction of
           None \<Rightarrow> None
         | Some s \<Rightarrow> if s = 0 then None else Some (s * 1000))\<rparr>"

definition isProofEntry :: "history_entry \<Rightarrow> bool" where
  "isProofEntry transaction =
     (noteType transaction = JStr (lit ''proof'') \<and> truthy (hash transaction))"

text \<open>
  \<open>Array.prototype.sort\<close> with a comparator: a stable sort, here by insertion. An element
  stays before another one when the comparator does not return a positive number.
\<close>

fun insertBy :: "('a \<Rightarrow> 'a \<Rightarrow> int) \<Rightarrow> 'a \<Rightarrow> 'a list \<Rightarrow> 'a list" where
  "insertBy cmp x [] = [x]"
| "insertBy cmp x (y # ys) = (if cmp x y \<le> 0 then x # y # ys else y # insertBy cmp x ys)"

definition sortBy :: "('a \<Rightarrow> 'a \<Rightarrow> int) \<Rightarrow> 'a list \<Rightarrow> 'a list" where
  "sortBy cmp xs = foldr (insertBy cmp) xs []"

definition roundOrZero :: "proof_record \<Rightarrow> nat" where
  "roundOrZero r = (case pr_transactionRound r of None \<Rightarrow> 0 | Some n \<Rightarrow> n)"

definition compareRounds :: "proof_record \<Rightarrow> proof_record \<Rightarrow> int" where
  "compareRounds a b = int (roundOrZero b) - int (roundOrZero a)"

definition deriveProofsFromTransactions :: "history_entry list \<Rightarrow> proof_record list" where
  "deriveProofsFromTransactions transactions =
     sortBy compareRounds
       (map (toProofRecord (assetByHash transactions)) (filter isProofEntry transactions))"

subsection \<open>Requests and replies\<close>

text \<open>
  The file that multer leaves in \<open>req.file\<close>, with memory storage. A handler answers with a
  status and a JSON body (\<open>Reply\<close>; \<open>res.json\<close> alone is status 200), or hands the error to
  the framework (\<open>Next\<close>); \<open>Unhandled\<close> is an error thrown inside the catch block.
\<close>

record upload =
  up_buffer :: "byte list"
  up_originalname :: ustring
  up_mimetype :: ustring
  up_size :: nat

datatype 'b reply = Reply nat 'b | Next ustring | Unhandled ustring

subsection \<open>POST /proofs/issue\<close>

record issue_request =
  issue_file :: "upload option"
  issue_label :: "ustring option"

record issued_proof =
  np_id :: ustring
  np_fileName :: ustring
  np_referenceLabel :: "ustring option"
  np_mimeType :: ustring
  np_fileSize :: nat
  np_hash :: ustring
  np_transactionId :: ustring
  np_transactionRound :: "nat option"
  np_assetId :: "nat option"
  np_assetTransactionId :: ustring
  np_issuedAt :: ustring

datatype issue_body =
    IssueError string
  | IssueInsufficientBalance string ustring nat int string
  | IssueOverspend string ustring int string
  | IssueCreated string issued_proof

text \<open>
  The body of the \<open>try\<close> block. \<open>clock k\<close> is the k-th reading of the clock. The result is the
  status and body sent, or \<open>Inl\<close> of the error that some step threw.
\<close>

definition issueAttempt :: "(byte list \<Rightarrow> byte list) \<Rightarrow> sdk \<Rightarrow> config \<Rightarrow> (nat \<Rightarrow> ustring)
    \<Rightarrow> issue_request \<Rightarrow> (ustring + nat \<times> issue_body) \<times> call list" where
  "issueAttempt sha S cfg clock req =
     (case issue_file req of
        None \<Rightarrow> (Inr (400, IssueError ''A valid file upload is required''), [])
      | Some file \<Rightarrow>
          if up_originalname file = [] then
            (Inr (400, IssueError ''A valid file upload is required''), [])
          else if (case ALGORAND_MNEMONIC cfg of None \<Rightarrow> True | Some m \<Rightarrow> trim m = []) then
            (Inr (400, IssueError
               ''ALGORAND_MNEMONIC is missing in backend/.env. Add a funded TestNet mnemonic and restart the backend.''),
             [])
          else
            (case fetchIssuerAccountState S cfg [] of
               (Inl e, tr) \<Rightarrow> (Inl e, tr)
             | (Inr issuerState, tr) \<Rightarrow>
                 if int (st_amount issuerState) < issueMinRecommendedMicroAlgos cfg then
                   (Inr (400, IssueInsufficientBalance
                      ''Issuer wallet has insufficient TestNet ALGO balance to issue proof transactions.''
                      (st_address issuerState) (st_amount issuerState)
                      (issueMinRecommendedMicroAlgos cfg) testnetFundingUrl),
                    tr)
                 else
                   (let label = trim (case issue_label req of None \<Rightarrow> [] | Some l \<Rightarrow> l);
                        referenceLabel = (if label = [] then None else Some label);
                        h = computeSHA256 sha (up_buffer file)
                    in case createProofTransaction S cfg (clock 0) h
                              \<lparr>fm_fileName = up_originalname file,
                               fm_mimeType = up_mimetype file,
                               fm_fileSize = up_size file,
                               fm_referenceLabel = referenceLabel\<rparr> tr of
                         (Inl e, tr1) \<Rightarrow> (Inl e, tr1)
                       | (Inr proofTransaction, tr1) \<Rightarrow>
                           (case mintProofAsset S cfg (clock 1) (clock 2) h
                                   (up_originalname file) referenceLabel tr1 of
                              (Inl e, tr2) \<Rightarrow> (Inl e, tr2)
                            | (Inr assetTransaction, tr2) \<Rightarrow>
                                (Inr (201, IssueCreated ''Proof issued successfully''
                                   \<lparr>np_id = pt_txId proofTransaction,
                                    np_fileName = up_originalname file,
                                    np_referenceLabel = referenceLabel,
                                    np_mimeType = up_mimetype file,
                                    np_fileSize = up_size file,
                                    np_hash = h,
                                    np_transactionId = pt_txId proofTransaction,
                                    np_transactionRound = pt_confirmedRound proofTransaction,
                                    np_assetId = at_assetId assetTransaction,
                                    np_assetTransactionId = at_txId assetTransaction,
                                    np_issuedAt = clock 3\<rparr>),
                                 tr2)))))"

definition issueHandler :: "(byte list \<Rightarrow> byte list) \<Rightarrow> sdk \<Rightarrow> config \<Rightarrow> (nat \<Rightarrow> ustring)
    \<Rightarrow> issue_request \<Rightarrow> issue_body reply \<times> call list" where
  "issueHandler sha S cfg clock req =
     (case issueAttempt sha S cfg clock req of
        (Inr (status, body), tr) \<Rightarrow> (Reply status body, tr)
      | (Inl e, tr) \<Rightarrow>
          if isInsufficientFundsError e then
            (case getIssuerAddress S cfg of
               Inl e' \<Rightarrow> (Unhandled e', tr)
             | Inr issuer \<Rightarrow>
                 (Reply 400 (IssueOverspend
                    ''Issuer wallet has insufficient TestNet ALGO balance to pay network fees.''
                    issuer (issueMinRecommendedMicroAlgos cfg) testnetFundingUrl),
                  tr))
          else (Next e, tr))"

text \<open>The calls that write to the ledger.\<close>

fun isLedgerWrite :: "call \<Rightarrow> bool" where
  "isLedgerWrite (SendRawTransaction t) = True"
| "isLedgerWrite c = False"

subsection \<open>POST /proofs/verify\<close>







section \<open>Example inputs\<close>

text \<open>
  Concrete collaborators and requests, used where a property is evaluated at an input. The
  digest \<open>exampleSha\<close> is a stand-in of the right length, not SHA-256.
\<close>

fun replyStatus :: "'b reply \<Rightarrow> nat option" where
  "replyStatus (Reply status body) = Some status"
| "replyStatus r = None"

definition exampleSdk :: "nat \<Rightarrow> nat \<Rightarrow> transaction option \<Rightarrow> sdk" where
  "exampleSdk amount minBalance found =
     \<lparr>mnemonicToSecretKey = (\<lambda>m. Inr (lit ''ISSUER'')),
      accountInformation = (\<lambda>tr a. Inr \<lparr>acct_amount = amount, acct_min_balance = minBalance\<rparr>),
      getTransactionParams = (\<lambda>tr. Inr ()),
      sendRawTransaction = (\<lambda>tr t. Inr (lit ''TX'')),
      waitForConfirmation =
        (\<lambda>tr i. Inr \<lparr>conf_confirmed_round = Some 7, conf_asset_index = Some 99\<rparr>),
      lookupTransactionByID = (\<lambda>tr i. Inr found),
      searchForTransactions = (\<lambda>tr a n. Inr [])\<rparr>"

definition exampleConfig :: config where
  "exampleConfig =
     \<lparr>ALGORAND_MNEMONIC = Some (lit ''abandon ability''), ISSUE_MIN_RECOMMENDED_MICROALGOS = None\<rparr>"

definition exampleUpload :: upload where
  "exampleUpload =
     \<lparr>up_buffer = [1, 2, 3], up_originalname = lit ''a.txt'', up_mimetype = lit ''text/plain'',
      up_size = 3\<rparr>"

definition exampleClock :: "nat \<Rightarrow> ustring" where
  "exampleClock k = lit ''2024-01-01T00:00:00.000Z''"

definition exampleSha :: "byte list \<Rightarrow> byte list" where
  "exampleSha bs =
     [0xAB, 0xAB, 0xAB, 0xAB, 0xAB, 0xAB, 0xAB, 0xAB, 0xAB, 0xAB, 0xAB, 0xAB, 0xAB, 0xAB, 0xAB, 0xAB,
      0xAB, 0xAB, 0xAB, 0xAB, 0xAB, 0xAB, 0xAB, 0xAB, 0xAB, 0xAB, 0xAB, 0xAB, 0xAB, 0xAB, 0xAB, 0xAB]"

definition exampleIssueRequest :: issue_request where
  "exampleIssueRequest = \<lparr>issue_file = Some exampleUpload, issue_label = None\<rparr>"




definition exampleTransaction :: "byte list \<Rightarrow> transaction" where
  "exampleTransaction bs =
     \<lparr>tx_id = lit ''TX'', tx_type = lit ''pay'', tx_round_time = Some 1700000000,
      tx_confirmed_round = Some 7, tx_note = Some bs, tx_created_asset_index = None\<rparr>"

text \<open>A byte sequence written as its ASCII text.\<close>

definition bytesOf :: "string \<Rightarrow> byte list" where
  "bytesOf s = map of_char s"



text \<open>
  The records of a window before they are sorted, and the entries that the loop of
  \<open>deriveProofsFromTransactions\<close> stores in its map: an asset-kind note with a fingerprint on
  a transaction that created an asset.
\<close>

definition unsortedProofs :: "history_entry list \<Rightarrow> proof_record list" where
  "unsortedProofs transactions =
     map (toProofRecord (assetByHash transactions)) (filter isProofEntry transactions)"

definition isAssetEntry :: "history_entry \<Rightarrow> bool" where
  "isAssetEntry transaction =
     (noteType transaction = JStr (lit ''asa'') \<and> truthy (hash transaction)
      \<and> (case assetId transaction of None \<Rightarrow> False | Some a \<Rightarrow> a \<noteq> 0))"

definition exampleEntry :: "string \<Rightarrow> string \<Rightarrow> string \<Rightarrow> nat \<Rightarrow> nat option \<Rightarrow> history_entry" where
  "exampleEntry i kind h r a =
     \<lparr>entry_id = lit i, entry_type = lit ''pay'', roundTime = None, confirmedRound = Some r,
      hash = JStr (lit h), noteType = JStr (lit kind), entry_note = JNull, assetId = a\<rparr>"

definition exampleWindow :: "history_entry list" where
  "exampleWindow =
     [exampleEntry ''A1'' ''asa'' ''f1'' 11 (Some 501),
      exampleEntry ''P1'' ''proof'' ''f1'' 10 None,
      exampleEntry ''P2'' ''proof'' ''f2'' 12 None,
      exampleEntry ''A2'' ''asa'' ''f1'' 13 (Some 502)]"

text \<open>A text holds a run of 64 hexadecimal digits; and two notes used as examples.\<close>

definition hasHexRun :: "ustring \<Rightarrow> bool" where
  "hasHexRun noteText =
     (\<exists>pre m post. noteText = pre @ m @ post \<and> length m = 64 \<and> list_all isHexUnit m)"

definition badUtf8Note :: "byte list" where
  "badUtf8Note = [0x7B, 0x22, 0x68, 0x61, 0x73, 0x68, 0x22, 0x3A, 0x22, 0xFF, 0x22, 0x7D]"

definition legacyNote :: "byte list" where
  "legacyNote = bytesOf ''sha256=ABABABABABABABABABABABABABABABABABABABABABABABABABABABABABABABAB;''"

section \<open>Properties\<close>

subsection \<open>Issuance\<close>

lemma trim_example: "trim (lit ''abandon ability'') \<noteq> []"
  by (simp add: trim_def lit_def isWhiteSpace_def)

text \<open>
  C1 (as the code has it). The issue handler compares the account's amount itself with the
  threshold; the minimum-balance requirement is not subtracted. When the amount is below
  the threshold the handler answers 400 with the insufficient-balance body, and the only
  call it has made is the account query: nothing was written to the ledger.
\<close>

theorem issue_aborts_when_amount_below_threshold:
  assumes "issue_file req = Some file" and "up_originalname file \<noteq> []"
    and "ALGORAND_MNEMONIC cfg = Some m" and "trim m \<noteq> []"
    and "mnemonicToSecretKey S m = Inr address"
    and "accountInformation S [] address = Inr account"
    and "int (acct_amount account) < issueMinRecommendedMicroAlgos cfg"
  shows "issueHandler sha S cfg clock req =
           (Reply 400 (IssueInsufficientBalance
              ''Issuer wallet has insufficient TestNet ALGO balance to issue proof transactions.''
              address (acct_amount account) (issueMinRecommendedMicroAlgos cfg) testnetFundingUrl),
            [AccountInformation address])
         \<and> filter isLedgerWrite (snd (issueHandler sha S cfg clock req)) = []"
  using assms
  by (simp add: issueHandler_def issueAttempt_def fetchIssuerAccountState_def
      getIssuerAddress_def getIssuerAccount_def)

text \<open>The example of the specification: a balance of 100000 against the default threshold 350000.\<close>

theorem issue_aborts_when_amount_below_threshold_witness:
  "issueHandler exampleSha (exampleSdk 100000 0 None) exampleConfig exampleClock exampleIssueRequest =
     (Reply 400 (IssueInsufficientBalance
        ''Issuer wallet has insufficient TestNet ALGO balance to issue proof transactions.''
        (lit ''ISSUER'') 100000 350000 testnetFundingUrl),
      [AccountInformation (lit ''ISSUER'')])"
  using issue_aborts_when_amount_below_threshold
    [of exampleIssueRequest exampleUpload exampleConfig "lit ''abandon ability''"
        "exampleSdk 100000 0 None" "lit ''ISSUER''"
        "\<lparr>acct_amount = 100000, acct_min_balance = 0\<rparr>" exampleSha exampleClock]
    trim_example
  by (simp add: exampleIssueRequest_def exampleUpload_def exampleConfig_def exampleSdk_def
      issueMinRecommendedMicroAlgos_def lit_def)

text \<open>
  C1 as the specification words it fails: with an amount of 400000 and a minimum balance
  of 100000 the difference, 300000, is below the threshold 350000, yet the handler goes on,
  submits both transactions and answers 201.
\<close>

theorem issue_net_balance_counterexample:
  "int 400000 - int 100000 < issueMinRecommendedMicroAlgos exampleConfig
   \<and> replyStatus (fst (issueHandler exampleSha (exampleSdk 400000 100000 None) exampleConfig
         exampleClock exampleIssueRequest)) = Some 201
   \<and> length (filter isLedgerWrite (snd (issueHandler exampleSha (exampleSdk 400000 100000 None)
         exampleConfig exampleClock exampleIssueRequest))) = 2"
  using trim_example
  by (simp add: issueHandler_def issueAttempt_def fetchIssuerAccountState_def
      getIssuerAddress_def getIssuerAccount_def createProofTransaction_def mintProofAsset_def
      exampleIssueRequest_def exampleUpload_def exampleConfig_def exampleSdk_def
      issueMinRecommendedMicroAlgos_def Let_def lit_def)

subsection \<open>Verification\<close>














subsection \<open>History reconstruction\<close>

lemma insertBy_compareRounds:
  "insertBy compareRounds x ys = insort_key (\<lambda>r. - int (roundOrZero r)) x ys"
  by (induction ys) (simp_all add: compareRounds_def)

lemma sortBy_compareRounds:
  "sortBy compareRounds xs = sort_key (\<lambda>r. - int (roundOrZero r)) xs"
  by (induction xs) (simp_all add: sortBy_def insertBy_compareRounds)

lemma derive_sort_key:
  "deriveProofsFromTransactions transactions =
     sort_key (\<lambda>r. - int (roundOrZero r)) (unsortedProofs transactions)"
  by (simp add: deriveProofsFromTransactions_def unsortedProofs_def sortBy_compareRounds)



lemma assetByHash_fold: "assetByHash transactions = fold assetStep transactions Map.empty"
  by (simp add: assetByHash_def)

lemma assetStep_other:
  "\<not> (isAssetEntry t \<and> hash t = h) \<Longrightarrow> assetStep t m h = m h"
  by (auto simp: assetStep_def isAssetEntry_def split: option.split)

lemma assetStep_self:
  "isAssetEntry t \<Longrightarrow> assetStep t m (hash t) = assetId t"
  by (auto simp: assetStep_def isAssetEntry_def split: option.split)

lemma fold_assetStep_other:
  "\<forall>t\<in>set ts. \<not> (isAssetEntry t \<and> hash t = h) \<Longrightarrow> fold assetStep ts m h = m h"
  by (induction ts arbitrary: m) (simp_all add: assetStep_other)

lemma fold_assetStep_last:
  assumes "isAssetEntry a" and "\<forall>t\<in>set later. \<not> (isAssetEntry t \<and> hash t = hash a)"
  shows "fold assetStep (earlier @ a # later) m (hash a) = assetId a"
  using assms by (simp add: fold_assetStep_other assetStep_self)

lemma fold_assetStep_Some:
  "fold assetStep ts m h = Some n \<Longrightarrow>
     m h = Some n \<or> (\<exists>a\<in>set ts. isAssetEntry a \<and> hash a = h \<and> assetId a = Some n)"
proof (induction ts arbitrary: m)
  case Nil
  then show ?case by simp
next
  case (Cons t ts)
  from Cons.IH [OF Cons.prems [simplified]]
  show ?case
  proof
    assume "assetStep t m h = Some n"
    then show ?thesis
      by (cases "isAssetEntry t \<and> hash t = h") (auto simp: assetStep_other assetStep_self)
  next
    assume "\<exists>a\<in>set ts. isAssetEntry a \<and> hash a = h \<and> assetId a = Some n"
    then show ?thesis by auto
  qed
qed

lemma assetByHash_Some:
  "assetByHash ts h = Some n \<Longrightarrow> \<exists>a\<in>set ts. isAssetEntry a \<and> hash a = h \<and> assetId a = Some n"
  using fold_assetStep_Some [of ts Map.empty h n] by (simp add: assetByHash_fold)



lemma isAssetEntry_assetId:
  "isAssetEntry a \<Longrightarrow> \<exists>n. assetId a = Some n \<and> n \<noteq> 0"
  by (auto simp: isAssetEntry_def split: option.splits)

lemma set_derive:
  "set (deriveProofsFromTransactions ts) = toProofRecord (assetByHash ts) ` {t \<in> set ts. isProofEntry t}"
  by (simp add: derive_sort_key unsortedProofs_def)



text \<open>
  C10. When the window holds several asset-kind entries with fingerprint \<open>F\<close>, the last of
  them in the order of the window decides: every record with fingerprint \<open>F\<close> carries the
  asset id of that last entry.
\<close>

theorem last_asset_wins:
  assumes "transactions = earlier @ a # later"
    and "isAssetEntry a" and "hash a = JStr F" and "assetId a = Some n"
    and "\<forall>t\<in>set later. \<not> (isAssetEntry t \<and> hash t = JStr F)"
  shows "\<forall>r\<in>set (deriveProofsFromTransactions transactions).
           pr_hash r = JStr F \<longrightarrow> pr_assetId r = Some n"
proof (intro ballI impI)
  fix r
  assume r: "r \<in> set (deriveProofsFromTransactions transactions)" and h: "pr_hash r = JStr F"
  from r obtain p where p: "r = toProofRecord (assetByHash transactions) p"
    by (auto simp: set_derive)
  have hp: "hash p = JStr F"
    using h p by (simp add: toProofRecord_def)
  have n0: "n \<noteq> 0"
    using isAssetEntry_assetId [OF assms(2)] assms(4) by simp
  have "assetByHash transactions (JStr F) = Some n"
    using fold_assetStep_last [of a later earlier Map.empty] assms
    by (simp add: assetByHash_fold)
  then show "pr_assetId r = Some n"
    using p hp n0 by (simp add: toProofRecord_def mapGet_def isPrimitive_def orNull_def)
qed

lemma exampleWindow_proofs:
  "map (\<lambda>r. (pr_transactionId r, pr_transactionRound r, pr_assetId r))
       (deriveProofsFromTransactions exampleWindow)
     = [(lit ''P2'', Some 12, None), (lit ''P1'', Some 10, Some 502)]"
  by (simp add: deriveProofsFromTransactions_def exampleWindow_def exampleEntry_def
      isProofEntry_def toProofRecord_def assetByHash_def assetStep_def mapGet_def isPrimitive_def orNull_def
      sortBy_def compareRounds_def roundOrZero_def lit_def propOr_def)


theorem last_asset_wins_witness:
  "map pr_assetId (filter (\<lambda>r. pr_hash r = JStr (lit ''f1''))
       (deriveProofsFromTransactions exampleWindow)) = [Some 502]"
  using last_asset_wins
      [of exampleWindow
          "[exampleEntry ''A1'' ''asa'' ''f1'' 11 (Some 501),
            exampleEntry ''P1'' ''proof'' ''f1'' 10 None,
            exampleEntry ''P2'' ''proof'' ''f2'' 12 None]"
          "exampleEntry ''A2'' ''asa'' ''f1'' 13 (Some 502)" "[]" "lit ''f1''" 502]
  by (simp add: deriveProofsFromTransactions_def exampleWindow_def exampleEntry_def
      isProofEntry_def isAssetEntry_def toProofRecord_def assetByHash_def assetStep_def mapGet_def
      isPrimitive_def orNull_def sortBy_def compareRounds_def roundOrZero_def lit_def propOr_def)

subsection \<open>Decoding notes\<close>

lemma matchHash_head:
  "64 \<le> length m \<Longrightarrow> list_all isHexUnit (take 64 m) \<Longrightarrow> matchHash m = Some (take 64 m)"
  by (cases m) simp_all

lemma matchHash_skip:
  "\<not> list_all isHexUnit (take 64 (c # cs)) \<Longrightarrow> matchHash (c # cs) = matchHash cs"
  by auto

lemma matchHash_finds:
  assumes "length m = 64" and "list_all isHexUnit m"
  shows "\<exists>pre' m' post'. pre @ m @ post = pre' @ m' @ post' \<and> length m' = 64
           \<and> list_all isHexUnit m' \<and> length pre' \<le> length pre
           \<and> matchHash (pre @ m @ post) = Some m'"
proof (induction pre)
  case Nil
  have "matchHash (m @ post) = Some (take 64 (m @ post))"
    using assms by (intro matchHash_head) simp_all
  then have "matchHash (m @ post) = Some m"
    using assms by simp
  then show ?case
    using assms by (intro exI [of _ "[]"] exI [of _ m] exI [of _ post]) simp
next
  case (Cons c pre)
  define noteText where "noteText = c # pre @ m @ post"
  have eq: "(c # pre) @ m @ post = noteText" by (simp add: noteText_def)
  show ?case
  proof (cases "64 \<le> length noteText \<and> list_all isHexUnit (take 64 noteText)")
    case True
    then have "matchHash noteText = Some (take 64 noteText)"
      by (intro matchHash_head) simp_all
    moreover have "noteText = [] @ take 64 noteText @ drop 64 noteText"
      by (simp only: append_Nil append_take_drop_id)
    moreover have "length (take 64 noteText) = 64"
      using True by simp
    ultimately show ?thesis
      unfolding eq using True
      by (intro exI [of _ "[]"] exI [of _ "take 64 noteText"] exI [of _ "drop 64 noteText"])
        (simp del: append_take_drop_id)
  next
    case False
    have "\<not> list_all isHexUnit (take 64 noteText)"
    proof
      assume h: "list_all isHexUnit (take 64 noteText)"
      have "64 \<le> length noteText"
        using assms(1) by (simp add: noteText_def)
      with h False show False by simp
    qed
    then have step: "matchHash noteText = matchHash (pre @ m @ post)"
      unfolding noteText_def by (rule matchHash_skip)
    from Cons.IH obtain pre' m' post' where
      "pre @ m @ post = pre' @ m' @ post'" "length m' = 64" "list_all isHexUnit m'"
      "length pre' \<le> length pre" "matchHash (pre @ m @ post) = Some m'"
      by blast
    then show ?thesis
      unfolding eq step
      by (intro exI [of _ "c # pre'"] exI [of _ m'] exI [of _ post']) (simp add: noteText_def)
  qed
qed

lemma matchHash_leftmost:
  assumes "length m = 64" and "list_all isHexUnit m"
    and "\<forall>k<length pre. \<not> list_all isHexUnit (take 64 (drop k (pre @ m @ post)))"
  shows "matchHash (pre @ m @ post) = Some m"
  using assms(3)
proof (induction pre)
  case Nil
  have "matchHash (m @ post) = Some (take 64 (m @ post))"
    using assms by (intro matchHash_head) simp_all
  then show ?case
    using assms by simp
next
  case (Cons c pre)
  from Cons.prems have "\<not> list_all isHexUnit (take 64 (drop 0 ((c # pre) @ m @ post)))"
    by blast
  then have "\<not> list_all isHexUnit (take 64 (c # pre @ m @ post))"
    by simp
  then have step: "matchHash (c # pre @ m @ post) = matchHash (pre @ m @ post)"
    by (rule matchHash_skip)
  have "\<forall>k<length pre. \<not> list_all isHexUnit (take 64 (drop k (pre @ m @ post)))"
  proof (intro allI impI)
    fix k assume "k < length pre"
    then have "Suc k < length (c # pre)" by simp
    with Cons.prems have "\<not> list_all isHexUnit (take 64 (drop (Suc k) ((c # pre) @ m @ post)))"
      by blast
    then show "\<not> list_all isHexUnit (take 64 (drop k (pre @ m @ post)))"
      by simp
  qed
  with Cons.IH step show ?case by (simp only: append_Cons)
qed

lemma matchHash_None_iff: "matchHash noteText = None \<longleftrightarrow> \<not> hasHexRun noteText"
proof
  assume n: "matchHash noteText = None"
  show "\<not> hasHexRun noteText"
  proof
    assume "hasHexRun noteText"
    then obtain pre m post where "noteText = pre @ m @ post" "length m = 64" "list_all isHexUnit m"
      by (auto simp: hasHexRun_def)
    with matchHash_finds [of m pre post] n show False by auto
  qed
next
  have "\<And>m. matchHash noteText = Some m \<Longrightarrow> hasHexRun noteText"
  proof (induction noteText)
    case Nil
    then show ?case by simp
  next
    case (Cons c cs)
    show ?case
    proof (cases "64 \<le> length (c # cs) \<and> list_all isHexUnit (take 64 (c # cs))")
      case True
      have "c # cs = [] @ take 64 (c # cs) @ drop 64 (c # cs)" by simp
      moreover have "length (take 64 (c # cs)) = 64" using True by simp
      ultimately show ?thesis
        unfolding hasHexRun_def using True by blast
    next
      case False
      with Cons.prems have "matchHash cs = Some m" by (auto split: if_splits)
      from Cons.IH [OF this] obtain pre m' post where
        "cs = pre @ m' @ post" "length m' = 64" "list_all isHexUnit m'"
        by (auto simp: hasHexRun_def)
      then have "c # cs = (c # pre) @ m' @ post" by simp
      then show ?thesis
        unfolding hasHexRun_def using \<open>length m' = 64\<close> \<open>list_all isHexUnit m'\<close> by blast
    qed
  qed
  then show "\<not> hasHexRun noteText \<Longrightarrow> matchHash noteText = None"
    by (cases "matchHash noteText") auto
qed

lemma parseNotePayload_not_JSON:
  "decodeNote t = Some noteText \<Longrightarrow> JSON_parse noteText = None \<Longrightarrow> parseNotePayload t = JNull"
  by (simp add: parseNotePayload_def)

lemma parseHash_fallback:
  assumes "decodeNote t = Some noteText" and "noteText \<noteq> []"
    and "\<forall>h. (if truthy (parseNotePayload t) then getProp (parseNotePayload t) (lit ''hash'') else None)
              \<noteq> Some (JStr h)"
  shows "parseHashFromTransaction t = map_option toLowerCase (matchHash noteText)"
  using assms
  by (auto simp: parseHashFromTransaction_def Let_def split: option.split json.split if_splits)

text \<open>
  C7. When the text of a note is not JSON and holds a run \<open>m\<close> of 64 hexadecimal digits,
  \<open>parseHashFromTransaction\<close> returns a run of 64 hexadecimal digits of the text in lower
  case: the leftmost one, which is \<open>m\<close> itself when no such run starts before it. No other
  field is recovered: the parsed payload is null.
\<close>

theorem fallback_recovers_bare_hash:
  assumes "decodeNote t = Some noteText" and "JSON_parse noteText = None"
    and "noteText = pre @ m @ post" and "length m = 64" and "list_all isHexUnit m"
  shows "(\<exists>pre' m' post'. noteText = pre' @ m' @ post' \<and> length m' = 64
            \<and> list_all isHexUnit m' \<and> length pre' \<le> length pre
            \<and> parseHashFromTransaction t = Some (toLowerCase m'))
         \<and> ((\<forall>k<length pre. \<not> list_all isHexUnit (take 64 (drop k noteText)))
              \<longrightarrow> parseHashFromTransaction t = Some (toLowerCase m))
         \<and> parseNotePayload t = JNull"
proof -
  have null: "parseNotePayload t = JNull"
    using assms(1,2) by (rule parseNotePayload_not_JSON)
  have ne: "noteText \<noteq> []"
    using assms(3,4) by auto
  have ph: "parseHashFromTransaction t = map_option toLowerCase (matchHash noteText)"
    using assms(1) ne by (rule parseHash_fallback) (simp add: null)
  from matchHash_finds [OF assms(4,5), of pre post]
  have first: "\<exists>pre' m' post'. noteText = pre' @ m' @ post' \<and> length m' = 64
            \<and> list_all isHexUnit m' \<and> length pre' \<le> length pre
            \<and> parseHashFromTransaction t = Some (toLowerCase m')"
    unfolding ph assms(3) by auto
  have second: "(\<forall>k<length pre. \<not> list_all isHexUnit (take 64 (drop k noteText)))
              \<longrightarrow> parseHashFromTransaction t = Some (toLowerCase m)"
    unfolding ph assms(3) using matchHash_leftmost [OF assms(4,5), of pre post] by simp
  from first second null show ?thesis by blast
qed


lemma unat_byte_of_char: "unat (of_char c :: byte) = of_char c"
proof -
  have "(of_char c :: byte) = of_nat (of_char c)"
    by (simp add: of_nat_of_char)
  then have "unat (of_char c :: byte) = of_char c mod 256"
    by (simp only: unat_of_nat) simp
  then show ?thesis by simp
qed

lemma utf8Decode_bytesOf:
  "list_all (\<lambda>c. of_char c < (0x80::nat)) s \<Longrightarrow> utf8Decode (bytesOf s) = lit s"
proof (induction s)
  case Nil
  then show ?case by (simp add: bytesOf_def lit_def)
next
  case (Cons c s)
  then have "utf8Decode (bytesOf s) = lit s" and c: "of_char c < (0x80::nat)" by simp_all
  then show ?case
    using c by (simp add: bytesOf_def lit_def utf8First_def unat_byte_of_char unitsOf_def
        unitOf_def of_nat_of_char)
qed

lemma decodeNote_bytesOf:
  "s \<noteq> [] \<Longrightarrow> list_all (\<lambda>c. of_char c < (0x80::nat)) s \<Longrightarrow>
     decodeNote (Some (exampleTransaction (bytesOf s))) = Some (lit s)"
  by (simp add: decodeNote_def exampleTransaction_def utf8Decode_bytesOf) (simp add: bytesOf_def)

lemma legacyNote_text:
  "decodeNote (Some (exampleTransaction legacyNote)) = Some (lit ''sha256=ABABABABABABABABABABABABABABABABABABABABABABABABABABABABABABABAB;'')"
  unfolding legacyNote_def by (rule decodeNote_bytesOf) simp_all

lemma legacyNote_not_JSON: "JSON_parse (lit ''sha256=ABABABABABABABABABABABABABABABABABABABABABABABABABABABABABABABAB;'') = None"
  by (simp add: JSON_parse_def lit_def isJsonSpace_def isDigit_def parseLiteral_def)

lemma legacyNote_match: "matchHash (lit ''sha256=ABABABABABABABABABABABABABABABABABABABABABABABABABABABABABABABAB;'') = Some (lit ''ABABABABABABABABABABABABABABABABABABABABABABABABABABABABABABABAB'')"
  by (simp add: lit_def isHexUnit_def)

lemma legacyNote_hash:
  "parseHashFromTransaction (Some (exampleTransaction legacyNote)) = Some (lit ''abababababababababababababababababababababababababababababababab'')"
proof -
  have null: "parseNotePayload (Some (exampleTransaction legacyNote)) = JNull"
    using legacyNote_text legacyNote_not_JSON by (rule parseNotePayload_not_JSON)
  have "parseHashFromTransaction (Some (exampleTransaction legacyNote))
          = map_option toLowerCase (matchHash (lit ''sha256=ABABABABABABABABABABABABABABABABABABABABABABABABABABABABABABABAB;''))"
    using legacyNote_text by (rule parseHash_fallback) (simp_all add: null lit_def)
  then show ?thesis
    by (simp add: legacyNote_match) (simp add: lit_def toLowerCase_def lowerUnit_def)
qed

theorem fallback_recovers_bare_hash_witness:
  "parseHashFromTransaction (Some (exampleTransaction legacyNote)) = Some (lit ''abababababababababababababababababababababababababababababababab'')
   \<and> parseNotePayload (Some (exampleTransaction legacyNote)) = JNull"
  using fallback_recovers_bare_hash
      [of "Some (exampleTransaction legacyNote)" "lit ''sha256=ABABABABABABABABABABABABABABABABABABABABABABABABABABABABABABABAB;''"
          "lit ''sha256=''" "lit ''ABABABABABABABABABABABABABABABABABABABABABABABABABABABABABABABAB''" "lit '';''"]
    legacyNote_text legacyNote_not_JSON legacyNote_hash
  by (simp add: lit_def isHexUnit_def)


text \<open>
  C6 (as the code has it). Decoding is total: the exception of \<open>JSON.parse\<close> is caught.
  Without a transaction, without a note or with an empty note, both \<open>parseNotePayload\<close> and
  \<open>parseHashFromTransaction\<close> return null. Any other note is decoded as UTF-8 with
  replacement, never rejected, and the text decides: when it is not JSON the payload is
  null, and the fingerprint is null unless the text holds a run of 64 hexadecimal digits;
  when it is JSON without a string \<open>hash\<close> property the fingerprint is null under the same
  condition.
\<close>

theorem decode_null_cases:
  "parseNotePayload None = JNull \<and> parseHashFromTransaction None = None
   \<and> (tx_note tx = None \<or> tx_note tx = Some [] \<longrightarrow>
        parseNotePayload (Some tx) = JNull \<and> parseHashFromTransaction (Some tx) = None)
   \<and> (tx_note tx' = Some bs \<and> bs \<noteq> [] \<longrightarrow> decodeNote (Some tx') = Some (utf8Decode bs))
   \<and> (decodeNote t = Some noteText \<and> JSON_parse noteText = None \<longrightarrow>
        parseNotePayload t = JNull
        \<and> (\<not> hasHexRun noteText \<longrightarrow> parseHashFromTransaction t = None))
   \<and> (decodeNote t' = Some noteText' \<and> JSON_parse noteText' = Some v
        \<and> (\<forall>h. getProp v (lit ''hash'') \<noteq> Some (JStr h)) \<and> \<not> hasHexRun noteText' \<longrightarrow>
        parseHashFromTransaction t' = None)"
proof (intro conjI impI)
  show "parseNotePayload None = JNull"
    by (simp add: parseNotePayload_def decodeNote_def)
  show "parseHashFromTransaction None = None"
    by (simp add: parseHashFromTransaction_def parseNotePayload_def decodeNote_def)
next
  assume "tx_note tx = None \<or> tx_note tx = Some []"
  then have d: "decodeNote (Some tx) = None"
    by (auto simp: decodeNote_def)
  show "parseNotePayload (Some tx) = JNull"
    by (simp add: parseNotePayload_def d)
  show "parseHashFromTransaction (Some tx) = None"
    by (simp add: parseHashFromTransaction_def parseNotePayload_def d)
next
  assume "tx_note tx' = Some bs \<and> bs \<noteq> []"
  then show "decodeNote (Some tx') = Some (utf8Decode bs)"
    by (simp add: decodeNote_def)
next
  assume a: "decodeNote t = Some noteText \<and> JSON_parse noteText = None"
  then show null: "parseNotePayload t = JNull"
    by (simp add: parseNotePayload_def)
  assume "\<not> hasHexRun noteText"
  then have "matchHash noteText = None"
    by (simp add: matchHash_None_iff)
  then show "parseHashFromTransaction t = None"
    using a by (simp add: parseHashFromTransaction_def null)
next
  assume a: "decodeNote t' = Some noteText' \<and> JSON_parse noteText' = Some v
        \<and> (\<forall>h. getProp v (lit ''hash'') \<noteq> Some (JStr h)) \<and> \<not> hasHexRun noteText'"
  then have m: "matchHash noteText' = None"
    by (simp add: matchHash_None_iff)
  show "parseHashFromTransaction t' = None"
  proof (cases "noteText' = []")
    case True
    with a show ?thesis
      by (simp add: parseHashFromTransaction_def parseNotePayload_def)
  next
    case False
    with a have "parseNotePayload t' = v"
      by (simp add: parseNotePayload_def)
    with a m show ?thesis
      by (auto simp: parseHashFromTransaction_def Let_def split: option.split json.split)
  qed
qed

lemma plainNote_text:
  "decodeNote (Some (exampleTransaction (bytesOf ''plain text''))) = Some (lit ''plain text'')"
  by (rule decodeNote_bytesOf) simp_all

lemma plainNote_not_JSON: "JSON_parse (lit ''plain text'') = None"
  by (simp add: JSON_parse_def lit_def isJsonSpace_def isDigit_def parseLiteral_def)

lemma plainNote_no_run: "\<not> hasHexRun (lit ''plain text'')"
  unfolding matchHash_None_iff [symmetric] by (simp add: lit_def)

lemma countNote_text:
  "decodeNote (Some (exampleTransaction (bytesOf ''{\"n\":1}''))) = Some (lit ''{\"n\":1}'')"
  by (rule decodeNote_bytesOf) simp_all

lemma countNote_JSON: "JSON_parse (lit ''{\"n\":1}'') = Some (JObj [(lit ''n'', JNum 1)])"
  by (simp add: JSON_parse_def lit_def isJsonSpace_def isDigit_def skipWs_def consUnit_def
      parseNumber_def parseInt_def parseFrac_def parseExp_def mkObject_def digitsVal_def Let_def)

lemma countNote_no_run: "\<not> hasHexRun (lit ''{\"n\":1}'')"
  unfolding matchHash_None_iff [symmetric] by (simp add: lit_def)

theorem decode_null_cases_witness:
  "parseHashFromTransaction (Some (exampleTransaction [])) = None
   \<and> parseNotePayload (Some (exampleTransaction (bytesOf ''plain text''))) = JNull
   \<and> parseHashFromTransaction (Some (exampleTransaction (bytesOf ''plain text''))) = None
   \<and> parseHashFromTransaction (Some (exampleTransaction (bytesOf ''{\"n\":1}''))) = None"
  using decode_null_cases
      [of "exampleTransaction []" "exampleTransaction (bytesOf ''plain text'')"
          "bytesOf ''plain text''"
          "Some (exampleTransaction (bytesOf ''plain text''))" "lit ''plain text''"
          "Some (exampleTransaction (bytesOf ''{\"n\":1}''))" "lit ''{\"n\":1}''"
          "JObj [(lit ''n'', JNum 1)]"]
    plainNote_text plainNote_not_JSON plainNote_no_run
    countNote_text countNote_JSON countNote_no_run
  by (simp add: exampleTransaction_def)

lemma badUtf8Note_text:
  "utf8Decode badUtf8Note = lit ''{\"hash\":\"'' @ [0xFFFD] @ lit ''\"}''"
  by (simp add: badUtf8Note_def utf8First_def unitsOf_def unitOf_def isCont_def lit_def)

text \<open>
  C6 as the specification words it fails: the twelve bytes \<open>{"hash":"\<close>, \<open>0xFF\<close>, \<open>"}\<close> are
  not valid UTF-8 (encoding the decoded text does not give them back), yet the payload is
  an object and the fingerprint is the one code unit U+FFFD, not null.
\<close>

theorem invalid_utf8_decodes_counterexample:
  "utf8Encode (utf8Decode badUtf8Note) \<noteq> badUtf8Note
   \<and> parseNotePayload (Some (exampleTransaction badUtf8Note))
       = JObj [(lit ''hash'', JStr [0xFFFD])]
   \<and> parseHashFromTransaction (Some (exampleTransaction badUtf8Note)) = Some [0xFFFD]"
proof (intro conjI)
  show "utf8Encode (utf8Decode badUtf8Note) \<noteq> badUtf8Note"
    unfolding badUtf8Note_text
    by (simp add: lit_def badUtf8Note_def isHighSurrogate_def isLowSurrogate_def utf8Bytes_def
        byteOf_def)
  define noteText where "noteText = lit ''{\"hash\":\"'' @ [0xFFFD] @ lit ''\"}''"
  have ne: "noteText \<noteq> []"
    by (simp add: noteText_def lit_def)
  have d: "decodeNote (Some (exampleTransaction badUtf8Note)) = Some noteText"
    unfolding noteText_def badUtf8Note_text [symmetric]
    by (simp add: decodeNote_def exampleTransaction_def) (simp add: badUtf8Note_def)
  have p: "JSON_parse noteText = Some (JObj [(lit ''hash'', JStr [0xFFFD])])"
    by (simp add: noteText_def JSON_parse_def lit_def isJsonSpace_def isDigit_def skipWs_def
        consUnit_def mkObject_def Let_def)
  show n: "parseNotePayload (Some (exampleTransaction badUtf8Note))
       = JObj [(lit ''hash'', JStr [0xFFFD])]"
    by (simp add: parseNotePayload_def d p ne)
  show "parseHashFromTransaction (Some (exampleTransaction badUtf8Note)) = Some [0xFFFD]"
    by (simp add: parseHashFromTransaction_def n toLowerCase_def lowerUnit_def)
qed

end
